theory Spec2Isabelle
  imports Main "HOL-Library.Word"
begin

section \<open>Synthetic content: \<open>generatePRData\<close>\<close>

text \<open>
  Go's \<open>byte\<close> is an 8-bit word and \<open>uint64\<close> a 64-bit word. \<open>int\<close> lengths are
  modelled as \<open>int\<close>; \<open>make([]byte, l)\<close> panics for a negative \<open>l\<close>.
\<close>

type_synonym byte = "8 word"
type_synonym uint64 = "64 word"

datatype panic = MakesliceLenOutOfRange

text \<open>
  The loop of \<open>generatePRData\<close>: \<open>for i := 0; i < l; i++\<close>, with the two
  assignments of its body. \<open>seed * 48271 % 2147483647\<close> is \<open>(seed * 48271) % 2147483647\<close>
  on \<open>uint64\<close> (both operators have the same precedence and associate to the left);
  \<open>byte(seed)\<close> keeps the low 8 bits. The index \<open>i\<close> stays below \<open>len(res) = l\<close>.
\<close>

function generatePRData_loop :: "int \<Rightarrow> int \<Rightarrow> uint64 \<Rightarrow> byte list \<Rightarrow> byte list" where
  "generatePRData_loop l i seed res =
     (if i < l then
        (let seed' = seed * 48271 mod 2147483647
         in generatePRData_loop l (i + 1) seed' (res[nat i := ucast seed']))
      else res)"
  by pat_completeness auto
termination
  by (relation "measure (\<lambda>(l, i, seed, res). nat (l - i))") auto

declare generatePRData_loop.simps [simp del]

definition generatePRData :: "int \<Rightarrow> panic + byte list" where
  "generatePRData l =
     (if l < 0 then Inl MakesliceLenOutOfRange
      else Inr (generatePRData_loop l 0 1 (replicate (nat l) 0)))"

subsection \<open>The Lehmer generator, as the specification words it\<close>

text \<open>
  State \<open>s\<^sub>0 = 1\<close>, step \<open>s\<^bsub>i+1\<^esub> = (s\<^sub>i * 48271) mod (2^31 - 1)\<close> in 64-bit
  arithmetic; output byte \<open>i\<close> is the low 8 bits of \<open>s\<^bsub>i+1\<^esub>\<close>.
\<close>

fun lehmer :: "nat \<Rightarrow> uint64" where
  "lehmer 0 = 1"
| "lehmer (Suc i) = lehmer i * 48271 mod (2 ^ 31 - 1)"

definition lehmer_bytes :: "nat \<Rightarrow> byte list" where
  "lehmer_bytes n = map (\<lambda>i. ucast (lehmer (Suc i))) [0..<n]"

text \<open>The same generator on the natural numbers, where nothing can wrap.\<close>

fun lehmer_nat :: "nat \<Rightarrow> nat" where
  "lehmer_nat 0 = 1"
| "lehmer_nat (Suc i) = lehmer_nat i * 48271 mod (2 ^ 31 - 1)"

section \<open>The synthetic-content endpoint\<close>

subsection \<open>\<open>strconv.ParseInt(s, 10, 64)\<close> of the Go standard library\<close>

text \<open>
  The handler calls the library with base 10 and bit size 64. \<open>ParseUint\<close> walks the
  bytes of the string: a byte that is not a decimal digit is a syntax error; the
  accumulator \<open>n\<close> is a \<open>uint64\<close>, and the two overflow tests (\<open>n >= cutoff\<close> before
  \<open>n *= 10\<close>, and \<open>n1 < n || n1 > maxVal\<close> after \<open>n1 := n + d\<close>) are written out on
  \<open>nat\<close> with the wrap-around modulo \<open>2^64\<close>. An empty string is a syntax error.
  \<open>ParseInt\<close> picks off one leading sign, keeps going after a range error of
  \<open>ParseUint\<close> (with the value \<open>maxVal\<close>), and checks the signed range.
\<close>

datatype NumError = ErrSyntax | ErrRange

definition isDigit :: "char \<Rightarrow> bool" where
  "isDigit c = (48 \<le> (of_char c :: nat) \<and> (of_char c :: nat) \<le> 57)"

definition digitVal :: "char \<Rightarrow> nat" where
  "digitVal c = of_char c - 48"

definition maxUint64 :: nat where
  "maxUint64 = 2 ^ 64 - 1"

fun ParseUint_loop :: "string \<Rightarrow> nat \<Rightarrow> NumError + nat" where
  "ParseUint_loop [] n = Inr n"
| "ParseUint_loop (c # cs) n =
     (if \<not> isDigit c then Inl ErrSyntax
      else if n \<ge> maxUint64 div 10 + 1 then Inl ErrRange
      else (let n' = n * 10;
                n1 = (n' + digitVal c) mod 2 ^ 64
            in if n1 < n' \<or> n1 > maxUint64 then Inl ErrRange
               else ParseUint_loop cs n1))"

definition ParseUint :: "string \<Rightarrow> NumError + nat" where
  "ParseUint s = (if s = [] then Inl ErrSyntax else ParseUint_loop s 0)"

definition ParseInt_signed :: "bool \<Rightarrow> string \<Rightarrow> NumError + int" where
  "ParseInt_signed neg s =
     (case ParseUint s of
        Inl ErrSyntax \<Rightarrow> Inl ErrSyntax
      | r \<Rightarrow>
         (let un = (case r of Inr u \<Rightarrow> u | Inl e \<Rightarrow> maxUint64);
              cutoff = 2 ^ 63
          in if \<not> neg \<and> un \<ge> cutoff then Inl ErrRange
             else if neg \<and> un > cutoff then Inl ErrRange
             else Inr (if neg then - int un else int un)))"

fun ParseInt :: "string \<Rightarrow> NumError + int" where
  "ParseInt [] = Inl ErrSyntax"
| "ParseInt (c # cs) =
     (if c = CHR ''+'' then ParseInt_signed False cs
      else if c = CHR ''-'' then ParseInt_signed True cs
      else ParseInt_signed False (c # cs))"

subsection \<open>The response writer and the handler of \<open>/\<close>\<close>

text \<open>
  \<open>http.ResponseWriter\<close>, as far as the handlers use it: \<open>WriteHeader\<close> fixes the
  status once; \<open>Write\<close> sends status 200 first when no header was written, then appends
  to the body. A response nobody wrote to is sent with status 200 and an empty body.
\<close>

record ResponseWriter =
  wroteHeader :: bool
  status :: nat
  body :: "byte list"

definition newResponse :: ResponseWriter where
  "newResponse = \<lparr>wroteHeader = False, status = 200, body = []\<rparr>"

definition WriteHeader :: "nat \<Rightarrow> ResponseWriter \<Rightarrow> ResponseWriter" where
  "WriteHeader code w = (if wroteHeader w then w else w\<lparr>wroteHeader := True, status := code\<rparr>)"

definition Write :: "byte list \<Rightarrow> ResponseWriter \<Rightarrow> ResponseWriter" where
  "Write bs w = (let w' = (if wroteHeader w then w else WriteHeader 200 w)
                 in w'\<lparr>body := body w' @ bs\<rparr>)"

text \<open>\<open>strings.ReplaceAll(r.RequestURI, "/", "")\<close>: every slash is removed.\<close>

definition removeSlashes :: "string \<Rightarrow> string" where
  "removeSlashes s = filter (\<lambda>c. c \<noteq> CHR ''/'') s"

definition maxSize :: int where
  "maxSize = 2 ^ 30"

text \<open>
  The handler registered for \<open>/\<close> when no \<open>www\<close> directory is given, as a function of
  the request URI and the response writer. (It also prints the request to standard
  output, which no response depends on.)
\<close>

definition rootHandler :: "string \<Rightarrow> ResponseWriter \<Rightarrow> panic + ResponseWriter" where
  "rootHandler requestURI w =
     (case ParseInt (removeSlashes requestURI) of
        Inl err \<Rightarrow> Inr (WriteHeader 400 w)
      | Inr num \<Rightarrow>
          if num \<le> 0 \<or> num > maxSize then Inr (WriteHeader 400 w)
          else (case generatePRData num of
                  Inl p \<Rightarrow> Inl p
                | Inr data \<Rightarrow> Inr (Write data w)))"

subsection \<open>Decimal integers, as the specification words them\<close>

text \<open>
  The integer a string denotes: an optional sign followed by at least one decimal digit,
  of any length. \<open>None\<close> for every other string.
\<close>

definition decValue :: "nat \<Rightarrow> string \<Rightarrow> nat" where
  "decValue n cs = foldl (\<lambda>a c. a * 10 + digitVal c) n cs"

definition digits :: "string \<Rightarrow> nat option" where
  "digits cs = (if cs \<noteq> [] \<and> list_all isDigit cs then Some (decValue 0 cs) else None)"

fun decimalInt :: "string \<Rightarrow> int option" where
  "decimalInt [] = None"
| "decimalInt (c # cs) =
     (if c = CHR ''+'' then map_option int (digits cs)
      else if c = CHR ''-'' then map_option (\<lambda>n. - int n) (digits cs)
      else map_option int (digits (c # cs)))"

section \<open>Congestion control: the strategy factory\<close>

text \<open>
  \<open>CongestionControlType\<close> and \<open>HystartControlType\<close> are Go \<open>int\<close> types with three
  named constants each; any other integer is a value of the type too.
\<close>

type_synonym CongestionControlType = int
type_synonym HystartControlType = int

definition NewRenoControlType :: CongestionControlType where "NewRenoControlType = 0"
definition CubicControlType :: CongestionControlType where "CubicControlType = 1"
definition BbrControlType :: CongestionControlType where "BbrControlType = 2"

definition HystartTypeStandard :: HystartControlType where "HystartTypeStandard = 0"
definition HystartTypePlusPlus :: HystartControlType where "HystartTypePlusPlus = 1"
definition HystartTypeNone :: HystartControlType where "HystartTypeNone = 2"

record CongestionOptions =
  ControlType :: CongestionControlType
  Hystart :: HystartControlType

definition hystartTypeToString :: "HystartControlType \<Rightarrow> string" where
  "hystartTypeToString t =
     (if t = HystartTypeStandard then ''standard''
      else if t = HystartTypePlusPlus then ''++''
      else if t = HystartTypeNone then ''none''
      else [])"

definition congestionTypeToString :: "CongestionControlType \<Rightarrow> string" where
  "congestionTypeToString t =
     (if t = CubicControlType then ''Cubic''
      else if t = NewRenoControlType then ''NewReno''
      else if t = BbrControlType then ''Bbr''
      else [])"

text \<open>
  Calls on \<open>utils.DefaultLogger\<close>, with the formatted message. \<open>DefaultClock{}\<close> is
  the one clock the factory passes on.
\<close>

datatype log_call = Infof string | Errorf string

datatype Clock = DefaultClock

text \<open>
  \<open>NewCubicSender\<close> is defined outside the files at hand: the factory takes it as a
  parameter, with the argument order of the call (clock, RTT statistics, initial maximum
  datagram size, the "use Reno" flag, hystart type, tracer). The factory returns the
  sender together with the log calls it made.
\<close>

definition NewCongestionHandler ::
  "(Clock \<Rightarrow> 'rtt \<Rightarrow> nat \<Rightarrow> bool \<Rightarrow> HystartControlType \<Rightarrow> 'tracer \<Rightarrow> 'sender) \<Rightarrow>
   'rtt \<Rightarrow> nat \<Rightarrow> CongestionOptions \<Rightarrow> 'tracer \<Rightarrow> 'sender \<times> log_call list" where
  "NewCongestionHandler NewCubicSender rttStats initialMaxDatagramSize options tracer =
     (if ControlType options = NewRenoControlType then
        (NewCubicSender DefaultClock rttStats initialMaxDatagramSize True (Hystart options) tracer,
         [Infof (''Congestion Control: NewReno with hystart: '' @
                 hystartTypeToString (Hystart options))])
      else
        (NewCubicSender DefaultClock rttStats initialMaxDatagramSize False (Hystart options) tracer,
         [Infof (''Congestion Control: Cubic with hystart: '' @
                 hystartTypeToString (Hystart options))]))"

section \<open>The packet handler pair factory\<close>

text \<open>
  \<open>newSentPacketHandler\<close> and \<open>newReceivedPacketHandler\<close> are defined outside the files
  at hand: \<open>NewAckHandler\<close> takes both as parameters. Each allocates its handler, so
  each takes the store and returns the reference to the new handler with the new store.
  \<open>rttStats\<close> is a pointer: a reference of type \<open>'rtt\<close>.
\<close>

definition NewAckHandler ::
  "(int \<Rightarrow> nat \<Rightarrow> 'rtt \<Rightarrow> 'pers \<Rightarrow> CongestionOptions \<Rightarrow> 'tracer \<Rightarrow> 'logger \<Rightarrow> 'h \<Rightarrow> 'sph \<times> 'h) \<Rightarrow>
   ('sph \<Rightarrow> 'rtt \<Rightarrow> 'logger \<Rightarrow> 'version \<Rightarrow> 'h \<Rightarrow> 'rph \<times> 'h) \<Rightarrow>
   int \<Rightarrow> nat \<Rightarrow> 'rtt \<Rightarrow> 'pers \<Rightarrow> 'tracer \<Rightarrow> 'logger \<Rightarrow> 'version \<Rightarrow> CongestionOptions \<Rightarrow>
   'h \<Rightarrow> ('sph \<times> 'rph) \<times> 'h" where
  "NewAckHandler newSentPacketHandler newReceivedPacketHandler
     initialPacketNumber initialMaxDatagramSize rttStats pers tracer logger version congestion h =
     (let (sph, h1) = newSentPacketHandler initialPacketNumber initialMaxDatagramSize rttStats
                        pers congestion tracer logger h;
          (rph, h2) = newReceivedPacketHandler sph rttStats logger version h1
      in ((sph, rph), h2))"


section \<open>Properties of the generator\<close>

lemma lehmer_unat: "unat (lehmer i) = lehmer_nat i \<and> lehmer_nat i < 2 ^ 31 - 1"
proof (induction i)
  case 0 show ?case by simp
next
  case (Suc i)
  then have b: "unat (lehmer i) < 2147483647" and e: "unat (lehmer i) = lehmer_nat i" by simp_all
  have "unat (lehmer i) * 48271 < 2 ^ 64" using b by simp
  then have "unat (lehmer i * 48271) = unat (lehmer i) * 48271"
    by (simp add: unat_word_ariths)
  then have "unat (lehmer (Suc i)) = lehmer_nat (Suc i)"
    using e by (simp add: unat_mod)
  moreover have "lehmer_nat (Suc i) < 2 ^ 31 - 1" by simp
  ultimately show ?case by simp
qed

lemma generatePRData_loop_inv:
  "0 \<le> i \<Longrightarrow> i \<le> l \<Longrightarrow> length res = nat l \<Longrightarrow> seed = lehmer (nat i) \<Longrightarrow>
   generatePRData_loop l i seed res =
     take (nat i) res @ map (\<lambda>k. ucast (lehmer (Suc k))) [nat i..<nat l]"
proof (induction l i seed res rule: generatePRData_loop.induct)
  case (1 l i seed res)
  show ?case
  proof (cases "i < l")
    case False
    with 1 show ?thesis by (simp add: generatePRData_loop.simps)
  next
    case True
    define seed' where "seed' = seed * 48271 mod 2147483647"
    have s: "nat (i + 1) = Suc (nat i)" using 1(2) by simp
    have sd: "seed' = lehmer (nat (i + 1))" using 1(5) by (simp add: s seed'_def)
    have lt: "nat i < nat l" using True 1(2) by simp
    have "generatePRData_loop l i seed res =
       generatePRData_loop l (i + 1) seed' (res[nat i := ucast seed'])"
      using True by (subst generatePRData_loop.simps) (simp add: seed'_def Let_def)
    also have "\<dots> = take (nat (i+1)) (res[nat i := ucast seed']) @ map (\<lambda>k. ucast (lehmer (Suc k))) [nat (i+1)..<nat l]"
      using 1(1)[OF True seed'_def _ _ _ sd] 1(2,4) True by simp
    also have "\<dots> = take (nat i) res @ map (\<lambda>k. ucast (lehmer (Suc k))) [nat i..<nat l]"
      using lt 1(4) sd by (simp add: s take_Suc_conv_app_nth upt_conv_Cons)
    finally show ?thesis .
  qed
qed

lemma generatePRData_eq: "0 \<le> l \<Longrightarrow> generatePRData l = Inr (lehmer_bytes (nat l))"
  using generatePRData_loop_inv[of 0 l "replicate (nat l) 0" 1]
  by (simp add: generatePRData_def lehmer_bytes_def)

lemma lehmer_bytes_length: "length (lehmer_bytes n) = n"
  by (simp add: lehmer_bytes_def)

lemma lehmer_bytes_nth: "i < n \<Longrightarrow> lehmer_bytes n ! i = ucast (lehmer (Suc i))"
  by (simp add: lehmer_bytes_def)

lemma lehmer_bytes_take: "n \<le> m \<Longrightarrow> take n (lehmer_bytes m) = lehmer_bytes n"
  by (simp add: lehmer_bytes_def take_map)

lemma ucast_lehmer: "(ucast (lehmer i) :: byte) = of_nat (lehmer_nat i mod 256)"
proof -
  have "(ucast (lehmer i) :: byte) = of_nat (unat (lehmer i))"
    by simp
  also have "\<dots> = of_nat (lehmer_nat i)" by (simp only: lehmer_unat)
  also have "\<dots> = of_nat (lehmer_nat i mod 256)"
    by (simp add: word_eq_iff_unsigned[where ?'a = nat] unat_of_nat)
  finally show ?thesis .
qed

lemma lehmer_bytes_3: "lehmer_bytes 3 = [143, 226, 70]"
  by code_simp

lemma lehmer_bytes_2: "lehmer_bytes 2 = [143, 226]"
  by code_simp


text \<open>
  Claim C4. For every length \<open>l \<ge> 0\<close>, \<open>generatePRData l\<close> returns (it does not panic)
  the byte sequence of the Lehmer generator with state \<open>s\<^sub>0 = 1\<close> and step
  \<open>s\<^bsub>i+1\<^esub> = (s\<^sub>i * 48271) mod (2^31 - 1)\<close> computed on 64-bit words, byte \<open>i\<close> being
  the low 8 bits of \<open>s\<^bsub>i+1\<^esub>\<close>; the result has exactly \<open>l\<close> bytes. The 64-bit
  computation never wraps: each byte is also the mathematical state modulo 256.
\<close>

theorem generatePRData_lehmer:
  "0 \<le> l \<Longrightarrow>
     generatePRData l = Inr (lehmer_bytes (nat l)) \<and>
     length (lehmer_bytes (nat l)) = nat l \<and>
     (\<forall>i < nat l. lehmer_bytes (nat l) ! i = of_nat (lehmer_nat (Suc i) mod 256))"
  using generatePRData_eq[of l]
  by (simp add: lehmer_bytes_length lehmer_bytes_nth ucast_lehmer
        del: lehmer.simps lehmer_nat.simps)

theorem generatePRData_lehmer_witness:
  "(0::int) \<le> 3 \<and> generatePRData 3 = Inr [143, 226, 70] \<and> length [143 :: byte, 226, 70] = 3"
  using generatePRData_lehmer[of 3] by (simp add: lehmer_bytes_3)

text \<open>
  Claim C5. The generator is deterministic and position-pure. The Go function reads and
  writes nothing but its locals (the seed is set to 1 at every call), so it is a function
  of the requested length alone. For every \<open>n \<ge> 0\<close> the first \<open>n\<close> bytes of
  \<open>generatePRData (n + 1)\<close> are exactly \<open>generatePRData n\<close>, and the byte at a position
  \<open>i\<close> is the same in every request long enough to contain it: it depends on \<open>i\<close> only.
\<close>

theorem generatePRData_prefix:
  "0 \<le> n \<Longrightarrow>
     (\<exists>xs ys. generatePRData n = Inr xs \<and> generatePRData (n + 1) = Inr ys \<and>
        length xs = nat n \<and> take (nat n) ys = xs) \<and>
     (\<forall>m i. n \<le> m \<and> i < nat n \<longrightarrow>
        (\<exists>xs zs. generatePRData n = Inr xs \<and> generatePRData m = Inr zs \<and>
           zs ! i = xs ! i \<and> xs ! i = ucast (lehmer (Suc i))))"
proof (intro conjI allI impI)
  assume n: "0 \<le> n"
  show "\<exists>xs ys. generatePRData n = Inr xs \<and> generatePRData (n + 1) = Inr ys \<and>
        length xs = nat n \<and> take (nat n) ys = xs"
    using n by (simp add: generatePRData_eq lehmer_bytes_length lehmer_bytes_take)
next
  fix m i assume n: "0 \<le> n" and h: "n \<le> m \<and> i < nat n"
  then have "i < nat m" by linarith
  with n h show "\<exists>xs zs. generatePRData n = Inr xs \<and> generatePRData m = Inr zs \<and>
      zs ! i = xs ! i \<and> xs ! i = ucast (lehmer (Suc i))"
    by (simp add: generatePRData_eq lehmer_bytes_nth del: lehmer.simps)
qed

theorem generatePRData_prefix_witness:
  "(0::int) \<le> 2 \<and> generatePRData 2 = Inr [143, 226] \<and>
   generatePRData 3 = Inr [143, 226, 70] \<and> take 2 [143 :: byte, 226, 70] = [143, 226]"
  using generatePRData_prefix[of 2]
  by (simp add: generatePRData_eq lehmer_bytes_3 lehmer_bytes_2)

end
